theory Spec2Isabelle
  imports Main "HOL-Library.Word"
begin

section \<open>Data model\<close>

text \<open>
  The service of \<^verbatim>\<open>main.go\<close> keeps employee records in a process-wide map guarded by a
  reader/writer lock. Every handler does its whole access to the map and the counter inside
  one critical section, so a handler is modelled as one atomic transition on the store.
  The logger only appends to a file and is left out.
\<close>

text \<open>
  Go's \<^verbatim>\<open>int\<close> on a 64-bit platform: \<open>+\<close>, \<open>-\<close> and \<open>*\<close> wrap around, and a comparison
  compares the two's complement values, read by \<open>sint\<close>.
\<close>

type_synonym go_int = "64 word"

text \<open>
  A \<^verbatim>\<open>float64\<close> as its 64-bit pattern. The handlers only copy a salary, they never compute
  with it.
\<close>

type_synonym float64 = "64 word"

text \<open>\<^verbatim>\<open>type Employee struct\<close> (main.go, lines 37 to 42).\<close>

record Employee =
  ID :: go_int
  Name :: string
  Position :: string
  Salary :: float64

text \<open>
  The globals \<^verbatim>\<open>employees\<close> and \<^verbatim>\<open>lastID\<close> (lines 45 to 49). The map holds pointers, but no
  handler writes through a pointer: a record is only ever replaced, so the map is modelled
  as holding the records themselves.
\<close>

record store =
  employees :: "go_int \<rightharpoonup> Employee"
  lastID :: go_int

definition init_store :: store where
  "init_store = \<lparr>employees = Map.empty, lastID = 0\<rparr>"

section \<open>The standard library's integer parser\<close>

text \<open>
  \<^verbatim>\<open>strconv.Atoi\<close> belongs to the Go standard library, not to the repository. It is modelled
  after the library's implementation: \<^verbatim>\<open>Atoi(s)\<close> is \<^verbatim>\<open>ParseInt(s, 10, 0)\<close>, which strips one
  sign and calls \<^verbatim>\<open>ParseUint\<close> for the digits. A syntax error returns the value 0, a range
  error returns the largest magnitude of the sign.
\<close>

datatype num_err = ErrSyntax | ErrRange

record NumError =
  Func :: string
  Num :: string
  Err :: num_err

definition is_digit :: "char \<Rightarrow> bool" where
  "is_digit c \<longleftrightarrow> (48::nat) \<le> of_char c \<and> of_char c \<le> (57::nat)"

definition digit_val :: "char \<Rightarrow> nat" where
  "digit_val c = of_char c - 48"

definition maxUint64 :: nat where
  "maxUint64 = 2 ^ 64 - 1"

text \<open>
  The digit loop of \<^verbatim>\<open>ParseUint\<close> for base 10 and 64 bits. \<open>n\<close> is the \<^verbatim>\<open>uint64\<close>
  accumulator; the two overflow tests of the library are written on natural numbers.
\<close>

fun ParseUint_loop :: "string \<Rightarrow> nat \<Rightarrow> nat \<times> num_err option" where
  "ParseUint_loop [] n = (n, None)"
| "ParseUint_loop (c # cs) n =
     (if \<not> is_digit c then (0, Some ErrSyntax)
      else if n \<ge> maxUint64 div 10 + 1 then (maxUint64, Some ErrRange)
      else if n * 10 + digit_val c > maxUint64 then (maxUint64, Some ErrRange)
      else ParseUint_loop cs (n * 10 + digit_val c))"

definition ParseUint :: "string \<Rightarrow> nat \<times> num_err option" where
  "ParseUint s = (if s = [] then (0, Some ErrSyntax) else ParseUint_loop s 0)"

definition ParseInt :: "string \<Rightarrow> go_int \<times> num_err option" where
  "ParseInt s =
     (case s of
        [] \<Rightarrow> (0, Some ErrSyntax)
      | c # cs \<Rightarrow>
          (let neg = (c = CHR ''-'');
               digits = (if c = CHR ''+'' \<or> c = CHR ''-'' then cs else s);
               (un, err) = ParseUint digits
           in if err = Some ErrSyntax then (0, Some ErrSyntax)
              else if \<not> neg \<and> un \<ge> 2 ^ 63 then (2 ^ 63 - 1, Some ErrRange)
              else if neg \<and> un > 2 ^ 63 then (- (2 ^ 63), Some ErrRange)
              else (if neg then - of_nat un else of_nat un, None)))"

definition Atoi :: "string \<Rightarrow> go_int \<times> NumError option" where
  "Atoi s =
     (case ParseInt s of
        (i, None) \<Rightarrow> (i, None)
      | (i, Some e) \<Rightarrow> (i, Some \<lparr>Func = ''Atoi'', Num = s, Err = e\<rparr>))"

text \<open>
  The text of a parse error, \<^verbatim>\<open>(*NumError).Error()\<close>: the function, the offending input
  quoted by \<^verbatim>\<open>strconv.Quote\<close>, and the kind of error. \<open>Quote\<close> is written out for the
  bytes below \<open>0x80\<close>; a byte from \<open>0x80\<close> on is escaped the way the library escapes a
  byte that is not part of a valid UTF-8 encoding (the model carries no Unicode tables).
\<close>

definition lowerhex :: "nat \<Rightarrow> char" where
  "lowerhex n = ''0123456789abcdef'' ! (n mod 16)"

definition escape_byte :: "char \<Rightarrow> string" where
  "escape_byte c =
     (let b = (of_char c :: nat)
      in if c = CHR 0x22 \<or> c = CHR 0x5C then [CHR 0x5C, c]
         else if 0x20 \<le> b \<and> b < 0x7F then [c]
         else if b = 0x07 then [CHR 0x5C, CHR ''a'']
         else if b = 0x08 then [CHR 0x5C, CHR ''b'']
         else if b = 0x0C then [CHR 0x5C, CHR ''f'']
         else if b = 0x0A then [CHR 0x5C, CHR ''n'']
         else if b = 0x0D then [CHR 0x5C, CHR ''r'']
         else if b = 0x09 then [CHR 0x5C, CHR ''t'']
         else if b = 0x0B then [CHR 0x5C, CHR ''v'']
         else [CHR 0x5C, CHR ''x'', lowerhex (b div 16), lowerhex b])"

definition Quote :: "string \<Rightarrow> string" where
  "Quote s = [CHR 0x22] @ concat (map escape_byte s) @ [CHR 0x22]"

definition NumError_Error :: "NumError \<Rightarrow> string" where
  "NumError_Error e =
     ''strconv.'' @ Func e @ '': parsing '' @ Quote (Num e) @ '': '' @
     (case Err e of ErrSyntax \<Rightarrow> ''invalid syntax'' | ErrRange \<Rightarrow> ''value out of range'')"

section \<open>Requests and responses\<close>

text \<open>
  What \<^verbatim>\<open>json.NewDecoder(r.Body).Decode\<close> hands to a handler: the decoder's error text, or
  the decoded employee (with whatever \<^verbatim>\<open>id\<close> the client wrote). The decoder itself is an
  external collaborator.
\<close>

type_synonym payload = "string + Employee"

text \<open>
  What a handler writes: the message given to \<^verbatim>\<open>http.Error\<close> or printed as plain text
  (without the newline that both append), the value given to the JSON encoder, or nothing.
  Headers are not modelled.
\<close>

datatype body =
    NoBody
  | Text string
  | EmployeeJSON Employee
  | EmployeeListJSON "Employee list"

text \<open>
  A handler either answers with a status code and a body, or panics (a slice expression
  out of range). A handler that writes a body without setting a status answers 200.
\<close>

datatype outcome = Response nat body | Panic

definition invalid_id_msg :: string where
  "invalid_id_msg = ''Invalid employee ID''"

definition not_found_msg :: string where
  "not_found_msg = ''Employee not found''"

definition invalid_content_type_msg :: string where
  "invalid_content_type_msg =
     ''Invalid content-type. Expected '' @ [CHR 0x27] @ ''application/json'' @ [CHR 0x27]"

section \<open>Handlers\<close>

text \<open>\<^verbatim>\<open>CreateEmployee\<close> (lines 53 to 68).\<close>

definition CreateEmployee :: "payload \<Rightarrow> store \<Rightarrow> outcome \<times> store" where
  "CreateEmployee p s =
     (case p of
        Inl err \<Rightarrow> (Response 400 (Text err), s)
      | Inr emp \<Rightarrow>
          (let lastID' = lastID s + 1;
               emp' = emp\<lparr>ID := lastID'\<rparr>
           in (Response 200 (EmployeeJSON emp'),
               s\<lparr>employees := (employees s)(ID emp' \<mapsto> emp'), lastID := lastID'\<rparr>)))"

text \<open>
  \<^verbatim>\<open>GetEmployeeByID\<close> (lines 70 to 92); it only reads the store. \<open>eid\<close> stands for the
  source's local \<^verbatim>\<open>id\<close>.
\<close>

definition GetEmployeeByID :: "string \<Rightarrow> store \<Rightarrow> outcome" where
  "GetEmployeeByID idStr s =
     (case Atoi idStr of
        (_, Some err) \<Rightarrow> Response 400 (Text invalid_id_msg)
      | (eid, None) \<Rightarrow>
          (case employees s eid of
             None \<Rightarrow> Response 404 (Text not_found_msg)
           | Some emp \<Rightarrow> Response 200 (EmployeeJSON emp)))"

text \<open>
  \<^verbatim>\<open>UpdateEmployee\<close> (lines 94 to 129). \<open>contentType\<close> is what
  \<^verbatim>\<open>r.Header.Get("Content-Type")\<close> returns, the empty string when the header is absent.
\<close>

definition UpdateEmployee :: "string \<Rightarrow> string \<Rightarrow> payload \<Rightarrow> store \<Rightarrow> outcome \<times> store" where
  "UpdateEmployee idStr contentType p s =
     (case Atoi idStr of
        (_, Some err) \<Rightarrow> (Response 400 (Text invalid_id_msg), s)
      | (eid, None) \<Rightarrow>
          if contentType \<noteq> ''application/json''
          then (Response 415 (Text invalid_content_type_msg), s)
          else
            (case p of
               Inl err \<Rightarrow> (Response 400 (Text err), s)
             | Inr emp \<Rightarrow>
                 (let updatedEmp = emp\<lparr>ID := eid\<rparr>
                  in case employees s eid of
                       None \<Rightarrow> (Response 404 (Text not_found_msg), s)
                     | Some _ \<Rightarrow>
                         (Response 200 (EmployeeJSON updatedEmp),
                          s\<lparr>employees := (employees s)(eid \<mapsto> updatedEmp)\<rparr>))))"

text \<open>\<^verbatim>\<open>DeleteEmployee\<close> (lines 131 to 151).\<close>

definition DeleteEmployee :: "string \<Rightarrow> store \<Rightarrow> outcome \<times> store" where
  "DeleteEmployee idStr s =
     (case Atoi idStr of
        (_, Some err) \<Rightarrow> (Response 400 (Text invalid_id_msg), s)
      | (eid, None) \<Rightarrow>
          (case employees s eid of
             None \<Rightarrow> (Response 404 (Text not_found_msg), s)
           | Some _ \<Rightarrow>
               (Response 204 NoBody, s\<lparr>employees := (employees s)(eid := None)\<rparr>)))"

subsection \<open>Listing\<close>

text \<open>
  The page parameters (lines 155 to 162). The query value is the empty string when the
  parameter is absent. The error of \<^verbatim>\<open>Atoi\<close> is dropped and only its value is used.
\<close>

definition effective_page :: "string \<Rightarrow> go_int" where
  "effective_page q = (let page = fst (Atoi q) in if sint page < 1 then 1 else page)"

definition effective_pageSize :: "string \<Rightarrow> go_int" where
  "effective_pageSize q = (let pageSize = fst (Atoi q) in if sint pageSize < 1 then 10 else pageSize)"

text \<open>
  The loop \<^verbatim>\<open>for _, emp := range employees\<close> (lines 167 to 170). Go leaves the order in which
  \<^verbatim>\<open>range\<close> visits a map unspecified, and the runtime varies it from one loop to the next.
  The order is therefore an argument of the model: \<open>ks\<close> is the sequence of keys in the
  order of this visit, and any sequence that holds every key of the map once can occur.
\<close>

definition range_order :: "(go_int \<rightharpoonup> Employee) \<Rightarrow> go_int list \<Rightarrow> bool" where
  "range_order m ks \<longleftrightarrow> distinct ks \<and> set ks = dom m"

definition employeeList_of :: "(go_int \<rightharpoonup> Employee) \<Rightarrow> go_int list \<Rightarrow> Employee list" where
  "employeeList_of m ks = List.map_filter m ks"

text \<open>
  The slice expression \<^verbatim>\<open>xs[lo:hi]\<close> on a slice whose capacity equals its length (the list
  is made with capacity \<^verbatim>\<open>len(employees)\<close> and filled to it). It panics unless
  \<open>0 \<le> lo \<le> hi \<le> len\<close>; \<open>None\<close> is the panic.
\<close>

definition slice :: "'a list \<Rightarrow> go_int \<Rightarrow> go_int \<Rightarrow> 'a list option" where
  "slice xs lo hi =
     (if 0 \<le> sint lo \<and> sint lo \<le> sint hi \<and> sint hi \<le> int (length xs)
      then Some (take (nat (sint hi - sint lo)) (drop (nat (sint lo)) xs))
      else None)"

text \<open>
  The pagination of lines 172 to 190, on the effective parameters. \<^verbatim>\<open>len(employeeList)\<close> is
  an \<^verbatim>\<open>int\<close>; the length of a Go slice always fits.
\<close>

definition paginate :: "Employee list \<Rightarrow> go_int \<Rightarrow> go_int \<Rightarrow> outcome" where
  "paginate employeeList page pageSize =
     (let totalEmployees = (word_of_nat (length employeeList) :: go_int);
          startIdx = (page - 1) * pageSize
      in if sint startIdx \<ge> sint totalEmployees then Response 200 (EmployeeListJSON [])
         else
           (let endIdx = startIdx + pageSize;
                endIdx' = (if sint endIdx > sint totalEmployees then totalEmployees else endIdx)
            in case slice employeeList startIdx endIdx' of
                 None \<Rightarrow> Panic
               | Some results \<Rightarrow> Response 200 (EmployeeListJSON results)))"

text \<open>\<^verbatim>\<open>ListEmployees\<close> (lines 154 to 191); it only reads the store.\<close>

definition ListEmployees :: "go_int list \<Rightarrow> string \<Rightarrow> string \<Rightarrow> store \<Rightarrow> outcome" where
  "ListEmployees ks pageStr pageSizeStr s =
     paginate (employeeList_of (employees s) ks)
       (effective_page pageStr) (effective_pageSize pageSizeStr)"

subsection \<open>Routing\<close>

text \<open>
  The routes of \<^verbatim>\<open>main\<close> (lines 198 to 206). A request carries what its handler reads: the
  path id, the Content-Type header, the decoded payload, the two query values.
\<close>

datatype request =
    POST_employees payload
  | GET_employee string
  | PUT_employee string string payload
  | DELETE_employee string
  | GET_employees string string
  | GET_root

fun handle :: "go_int list \<Rightarrow> request \<Rightarrow> store \<Rightarrow> outcome \<times> store" where
  "handle ks (POST_employees p) s = CreateEmployee p s"
| "handle ks (GET_employee idStr) s = (GetEmployeeByID idStr s, s)"
| "handle ks (PUT_employee idStr contentType p) s = UpdateEmployee idStr contentType p s"
| "handle ks (DELETE_employee idStr) s = DeleteEmployee idStr s"
| "handle ks (GET_employees pageStr pageSizeStr) s = (ListEmployees ks pageStr pageSizeStr s, s)"
| "handle ks GET_root s = (Response 200 (Text ''Employee Management API''), s)"

text \<open>A sequence of create calls with decodable payloads, one after the other.\<close>

fun create_all :: "Employee list \<Rightarrow> store \<Rightarrow> outcome list \<times> store" where
  "create_all [] s = ([], s)"
| "create_all (emp # emps) s =
     (let (out, s') = CreateEmployee (Inr emp) s;
          (outs, s'') = create_all emps s'
      in (out # outs, s''))"

text \<open>The identifiers that a list of outcomes reports as created, in order.\<close>

fun created_id :: "outcome \<Rightarrow> go_int list" where
  "created_id (Response st (EmployeeJSON emp)) = [ID emp]"
| "created_id _ = []"

definition created_ids :: "outcome list \<Rightarrow> go_int list" where
  "created_ids outs = concat (map created_id outs)"

subsection \<open>What a request carries\<close>

fun is_listing :: "request \<Rightarrow> bool" where
  "is_listing (GET_employees pageStr pageSizeStr) = True"
| "is_listing _ = False"

fun path_id :: "request \<Rightarrow> string option" where
  "path_id (GET_employee idStr) = Some idStr"
| "path_id (PUT_employee idStr contentType p) = Some idStr"
| "path_id (DELETE_employee idStr) = Some idStr"
| "path_id _ = None"

fun payload_of :: "request \<Rightarrow> payload option" where
  "payload_of (POST_employees p) = Some p"
| "payload_of (PUT_employee idStr contentType p) = Some p"
| "payload_of _ = None"

fun content_type_of :: "request \<Rightarrow> string option" where
  "content_type_of (PUT_employee idStr contentType p) = Some contentType"
| "content_type_of _ = None"

section \<open>Sample data\<close>

definition emp_ann :: Employee where
  "emp_ann = \<lparr>ID = 0, Name = ''Ann'', Position = ''Dev'', Salary = 0\<rparr>"

definition emp_bob :: Employee where
  "emp_bob = \<lparr>ID = 99, Name = ''Bob'', Position = ''Ops'', Salary = 5\<rparr>"

text \<open>The store after one create of \<open>emp_ann\<close> on the empty store.\<close>

definition store_ann :: store where
  "store_ann = \<lparr>employees = [1 \<mapsto> emp_ann\<lparr>ID := 1\<rparr>], lastID = 1\<rparr>"

text \<open>A store with two records.\<close>

definition store_two :: store where
  "store_two =
     \<lparr>employees = [1 \<mapsto> emp_ann\<lparr>ID := 1\<rparr>, 2 \<mapsto> emp_bob\<lparr>ID := 2\<rparr>], lastID = 2\<rparr>"

text \<open>An empty store whose counter is one below the largest \<^verbatim>\<open>int\<close>, \<open>2 ^ 63 - 1\<close>.\<close>

definition store_near_max :: store where
  "store_near_max = \<lparr>employees = Map.empty, lastID = 0x7FFFFFFFFFFFFFFE\<rparr>"

section \<open>Evaluating the parser\<close>

lemmas Atoi_eval = Atoi_def ParseInt_def ParseUint_def is_digit_def digit_val_def maxUint64_def

lemma Atoi_1: "Atoi ''1'' = (1, None)"
  by (simp add: Atoi_eval)

lemma Atoi_7: "Atoi ''7'' = (7, None)"
  by (simp add: Atoi_eval)

lemma ParseInt_syntax_value: "ParseInt q = (i, Some ErrSyntax) \<Longrightarrow> i = 0"
  by (auto simp: ParseInt_def Let_def split: list.splits prod.splits if_splits)

section \<open>Arithmetic that does not wrap\<close>

lemma sint_lower: "- (2 ^ 63) \<le> sint (w :: go_int)"
  using sint_greater_eq [of w] by simp

lemma sint_upper: "sint (w :: go_int) < 2 ^ 63"
  using sint_less [of w] by simp

lemma sint_add_no_wrap:
  fixes a b :: go_int
  assumes "- (2 ^ 63) \<le> sint a + sint b" and "sint a + sint b < 2 ^ 63"
  shows "sint (a + b) = sint a + sint b"
  using assms by (simp add: sint_word_add signed_take_bit_int_eq_self)

lemma sint_mult_no_wrap:
  fixes a b :: go_int
  assumes "- (2 ^ 63) \<le> sint a * sint b" and "sint a * sint b < 2 ^ 63"
  shows "sint (a * b) = sint a * sint b"
  using assms by (simp add: sint_word_mult signed_take_bit_int_eq_self)

lemma sint_pred_no_wrap:
  fixes a :: go_int
  assumes "1 \<le> sint a"
  shows "sint (a - 1) = sint a - 1"
proof -
  have "sint (a - 1) = signed_take_bit 63 (sint a - sint (1 :: go_int))"
    by (simp add: sint_word_diff)
  also have "\<dots> = sint a - 1"
    using assms sint_upper [of a] by (simp add: signed_take_bit_int_eq_self)
  finally show ?thesis .
qed

lemma sint_of_nat_no_wrap:
  assumes "n < 2 ^ 63"
  shows "sint (word_of_nat n :: go_int) = int n"
proof -
  have "int n < 2 ^ 63" using assms by (metis of_nat_less_iff of_nat_numeral of_nat_power)
  then show ?thesis
    by (simp add: signed_of_nat signed_take_bit_int_eq_self)
qed

lemma sint_counter_plus:
  assumes "sint (c :: go_int) + int n < 2 ^ 63"
  shows "sint (c + word_of_nat n) = sint c + int n"
proof -
  have "c + word_of_nat n = word_of_int (sint c + int n)"
    by simp
  then have "sint (c + word_of_nat n) = signed_take_bit 63 (sint c + int n)"
    by (simp only: sint_sbintrunc') simp
  also have "\<dots> = sint c + int n"
    using assms sint_lower [of c] by (simp add: signed_take_bit_int_eq_self)
  finally show ?thesis .
qed

lemma sint_succ:
  assumes "sint (c :: go_int) < 2 ^ 63 - 1"
  shows "sint (c + 1) = sint c + 1"
  using assms sint_counter_plus [of c 1] by simp

section \<open>Concrete runs\<close>

lemma create_ann:
  "CreateEmployee (Inr emp_ann) init_store =
     (Response 200 (EmployeeJSON (emp_ann\<lparr>ID := 1\<rparr>)), store_ann)"
  by (simp add: CreateEmployee_def init_store_def store_ann_def Let_def)

lemma update_bob:
  "UpdateEmployee ''1'' ''application/json'' (Inr emp_bob) store_ann =
     (Response 200 (EmployeeJSON (emp_bob\<lparr>ID := 1\<rparr>)),
      store_ann\<lparr>employees := [1 \<mapsto> emp_bob\<lparr>ID := 1\<rparr>]\<rparr>)"
  by (simp add: UpdateEmployee_def Atoi_1 store_ann_def Let_def)

lemma create_two_near_max:
  "create_all [emp_ann, emp_bob] store_near_max =
     ([Response 200 (EmployeeJSON (emp_ann\<lparr>ID := 0x7FFFFFFFFFFFFFFF\<rparr>)),
       Response 200 (EmployeeJSON (emp_bob\<lparr>ID := 0x8000000000000000\<rparr>))],
      \<lparr>employees = [0x7FFFFFFFFFFFFFFF \<mapsto> emp_ann\<lparr>ID := 0x7FFFFFFFFFFFFFFF\<rparr>,
                    0x8000000000000000 \<mapsto> emp_bob\<lparr>ID := 0x8000000000000000\<rparr>],
       lastID = 0x8000000000000000\<rparr>)"
  by (simp add: store_near_max_def CreateEmployee_def Let_def)

lemmas List_eval = ListEmployees_def effective_page_def effective_pageSize_def Atoi_eval
  employeeList_of_def List.map_filter_simps paginate_def slice_def Let_def

section \<open>Update\<close>

text \<open>
  C10: a PUT whose path id parses and whose Content-Type is not exactly
  \<^verbatim>\<open>application/json\<close> is answered 415 whatever the payload and whether or not the id is in
  the store; the store is not touched.
\<close>

theorem UpdateEmployee_wrong_content_type:
  assumes "Atoi idStr = (eid, None)"
    and "contentType \<noteq> ''application/json''"
  shows "UpdateEmployee idStr contentType p s = (Response 415 (Text invalid_content_type_msg), s)"
  using assms by (simp add: UpdateEmployee_def)

theorem UpdateEmployee_wrong_content_type_witness:
  "Atoi ''7'' = (7, None)
   \<and> ''application/json; charset=utf-8'' \<noteq> ''application/json''
   \<and> employees init_store 7 = None
   \<and> UpdateEmployee ''7'' ''application/json; charset=utf-8''
         (Inr emp_ann) init_store
       = (Response 415 (Text invalid_content_type_msg), init_store)"
proof -
  have c: "''application/json; charset=utf-8'' \<noteq> ''application/json''" by simp
  show ?thesis
    using c UpdateEmployee_wrong_content_type [OF Atoi_7 c] by (simp add: Atoi_7 init_store_def)
qed

text \<open>
  C2: an update of an id that is in the store, with the JSON content type and a decodable
  payload, answers 200 and stores under the path id the payload's fields with the
  identifier set to the path id, whatever identifier the payload held, and a get of the
  same path id on the resulting store answers with exactly that record. And every update
  that answers 200 is of this kind: the payload was decodable, the id parsed and was in the
  store, and the record answered, stored and returned by a following get is the payload
  with the path id.
\<close>

theorem UpdateEmployee_then_Get:
  "(Atoi idStr = (eid, None) \<and> employees s eid = Some old \<longrightarrow>
      UpdateEmployee idStr ''application/json'' (Inr new_fields) s =
        (Response 200 (EmployeeJSON (new_fields\<lparr>ID := eid\<rparr>)),
         s\<lparr>employees := (employees s)(eid \<mapsto> new_fields\<lparr>ID := eid\<rparr>)\<rparr>)
      \<and> GetEmployeeByID idStr
            (snd (UpdateEmployee idStr ''application/json'' (Inr new_fields) s)) =
          Response 200 (EmployeeJSON (new_fields\<lparr>ID := eid\<rparr>))
      \<and> ID (new_fields\<lparr>ID := eid\<rparr>) = eid
      \<and> Name (new_fields\<lparr>ID := eid\<rparr>) = Name new_fields
      \<and> Position (new_fields\<lparr>ID := eid\<rparr>) = Position new_fields
      \<and> Salary (new_fields\<lparr>ID := eid\<rparr>) = Salary new_fields)
   \<and> (UpdateEmployee idStr contentType p s = (Response 200 b, s') \<longrightarrow>
        (\<exists>sent.
           p = Inr sent
           \<and> contentType = ''application/json''
           \<and> snd (Atoi idStr) = None
           \<and> employees s (fst (Atoi idStr)) \<noteq> None
           \<and> b = EmployeeJSON (sent\<lparr>ID := fst (Atoi idStr)\<rparr>)
           \<and> s' = s\<lparr>employees := (employees s)(fst (Atoi idStr) \<mapsto> sent\<lparr>ID := fst (Atoi idStr)\<rparr>)\<rparr>
           \<and> GetEmployeeByID idStr s' =
               Response 200 (EmployeeJSON (sent\<lparr>ID := fst (Atoi idStr)\<rparr>))))"
proof (intro conjI impI)
  assume a: "Atoi idStr = (eid, None) \<and> employees s eid = Some old"
  show u: "UpdateEmployee idStr ''application/json'' (Inr new_fields) s =
        (Response 200 (EmployeeJSON (new_fields\<lparr>ID := eid\<rparr>)),
         s\<lparr>employees := (employees s)(eid \<mapsto> new_fields\<lparr>ID := eid\<rparr>)\<rparr>)"
    using a by (simp add: UpdateEmployee_def Let_def)
  show "GetEmployeeByID idStr
            (snd (UpdateEmployee idStr ''application/json'' (Inr new_fields) s)) =
          Response 200 (EmployeeJSON (new_fields\<lparr>ID := eid\<rparr>))"
    unfolding u using a by (simp add: GetEmployeeByID_def)
  show "ID (new_fields\<lparr>ID := eid\<rparr>) = eid"
    and "Name (new_fields\<lparr>ID := eid\<rparr>) = Name new_fields"
    and "Position (new_fields\<lparr>ID := eid\<rparr>) = Position new_fields"
    and "Salary (new_fields\<lparr>ID := eid\<rparr>) = Salary new_fields"
    by simp_all
next
  assume "UpdateEmployee idStr contentType p s = (Response 200 b, s')"
  then show "\<exists>sent.
           p = Inr sent
           \<and> contentType = ''application/json''
           \<and> snd (Atoi idStr) = None
           \<and> employees s (fst (Atoi idStr)) \<noteq> None
           \<and> b = EmployeeJSON (sent\<lparr>ID := fst (Atoi idStr)\<rparr>)
           \<and> s' = s\<lparr>employees := (employees s)(fst (Atoi idStr) \<mapsto> sent\<lparr>ID := fst (Atoi idStr)\<rparr>)\<rparr>
           \<and> GetEmployeeByID idStr s' =
               Response 200 (EmployeeJSON (sent\<lparr>ID := fst (Atoi idStr)\<rparr>))"
    by (auto simp: UpdateEmployee_def GetEmployeeByID_def Let_def
           split: prod.splits option.splits if_splits sum.splits)
qed

theorem UpdateEmployee_then_Get_witness:
  "Atoi ''1'' = (1, None) \<and> employees store_ann 1 = Some (emp_ann\<lparr>ID := 1\<rparr>)
   \<and> ID emp_bob = 99
   \<and> UpdateEmployee ''1'' ''application/json'' (Inr emp_bob) store_ann =
       (Response 200 (EmployeeJSON \<lparr>ID = 1, Name = ''Bob'', Position = ''Ops'', Salary = 5\<rparr>),
        store_ann\<lparr>employees := [1 \<mapsto> emp_bob\<lparr>ID := 1\<rparr>]\<rparr>)
   \<and> GetEmployeeByID ''1'' (snd (UpdateEmployee ''1'' ''application/json'' (Inr emp_bob) store_ann))
       = Response 200 (EmployeeJSON \<lparr>ID = 1, Name = ''Bob'', Position = ''Ops'', Salary = 5\<rparr>)
   \<and> (\<exists>sent. (Inr emp_bob :: payload) = Inr sent
         \<and> GetEmployeeByID ''1'' (store_ann\<lparr>employees := [1 \<mapsto> emp_bob\<lparr>ID := 1\<rparr>]\<rparr>) =
             Response 200 (EmployeeJSON (sent\<lparr>ID := 1\<rparr>)))"
proof -
  have p: "employees store_ann 1 = Some (emp_ann\<lparr>ID := 1\<rparr>)"
    by (simp add: store_ann_def)
  have m: "(employees store_ann)(1 \<mapsto> emp_bob\<lparr>ID := 1\<rparr>) = [1 \<mapsto> emp_bob\<lparr>ID := 1\<rparr>]"
    by (simp add: store_ann_def)
  have e: "emp_bob\<lparr>ID := 1\<rparr> = \<lparr>ID = 1, Name = ''Bob'', Position = ''Ops'', Salary = 5\<rparr>"
    and i: "ID emp_bob = 99"
    by (simp_all add: emp_bob_def)
  show ?thesis
    using UpdateEmployee_then_Get [of "''1''" 1 store_ann "emp_ann\<lparr>ID := 1\<rparr>" emp_bob
        "''application/json''" "Inr emp_bob" "EmployeeJSON (emp_bob\<lparr>ID := 1\<rparr>)"
        "store_ann\<lparr>employees := [1 \<mapsto> emp_bob\<lparr>ID := 1\<rparr>]\<rparr>"]
      update_bob
    by (auto simp: Atoi_1 p m e i)
qed

text \<open>
  C4: an update of a path id that is not in the store, with the JSON content type and a
  decodable payload, is answered 404 with the fixed message; and whatever the content type
  and the payload, an update of an absent id returns the store (map and counter) as it was.
\<close>

theorem UpdateEmployee_absent:
  assumes "Atoi idStr = (eid, None)" and "employees s eid = None"
  shows "UpdateEmployee idStr ''application/json'' (Inr new_fields) s =
           (Response 404 (Text not_found_msg), s)
         \<and> snd (UpdateEmployee idStr contentType p s) = s"
  using assms
  by (auto simp: UpdateEmployee_def Let_def split: sum.splits)

theorem UpdateEmployee_absent_witness:
  "Atoi ''7'' = (7, None) \<and> employees store_ann 7 = None
   \<and> UpdateEmployee ''7'' ''application/json'' (Inr emp_bob) store_ann =
       (Response 404 (Text not_found_msg), store_ann)
   \<and> snd (UpdateEmployee ''7'' ''text/plain'' (Inl ''unexpected EOF'') store_ann) = store_ann"
proof -
  have a: "employees store_ann 7 = None" by (simp add: store_ann_def)
  show ?thesis using UpdateEmployee_absent [OF Atoi_7 a] a Atoi_7 by simp
qed

section \<open>Create, get and delete\<close>

text \<open>
  C5: a create with a decodable payload answers 200 with a record; a get on the resulting
  store, with a path id that parses to that record's identifier, answers 200 with the same
  record, whose name, position and salary are those of the payload.
\<close>

theorem Create_then_Get:
  assumes "CreateEmployee (Inr new_fields) s = (Response st (EmployeeJSON emp), s')"
    and "Atoi idStr = (ID emp, None)"
  shows "st = 200 \<and> GetEmployeeByID idStr s' = Response 200 (EmployeeJSON emp)
         \<and> Name emp = Name new_fields \<and> Position emp = Position new_fields
         \<and> Salary emp = Salary new_fields"
  using assms
  by (auto simp: CreateEmployee_def GetEmployeeByID_def Let_def)

theorem Create_then_Get_witness:
  "CreateEmployee (Inr emp_ann) init_store =
     (Response 200 (EmployeeJSON (emp_ann\<lparr>ID := 1\<rparr>)), store_ann)
   \<and> Atoi ''1'' = (ID (emp_ann\<lparr>ID := 1\<rparr>), None)
   \<and> GetEmployeeByID ''1'' store_ann = Response 200 (EmployeeJSON (emp_ann\<lparr>ID := 1\<rparr>))"
proof -
  have a: "Atoi ''1'' = (ID (emp_ann\<lparr>ID := 1\<rparr>), None)" by (simp add: Atoi_1)
  show ?thesis using Create_then_Get [OF create_ann a] create_ann a by simp
qed

text \<open>
  C6: for a path id that parses, a delete of an id in the store answers 204 with no body
  and removes the record, so that a get of the same id on the resulting store answers 404;
  a delete of an id that is not in the store answers 404 and leaves the store as it was.
\<close>

theorem DeleteEmployee_then_Get:
  assumes "Atoi idStr = (eid, None)"
  shows "(case employees s eid of
            Some emp \<Rightarrow>
              DeleteEmployee idStr s =
                (Response 204 NoBody, s\<lparr>employees := (employees s)(eid := None)\<rparr>)
              \<and> GetEmployeeByID idStr (snd (DeleteEmployee idStr s)) =
                  Response 404 (Text not_found_msg)
          | None \<Rightarrow> DeleteEmployee idStr s = (Response 404 (Text not_found_msg), s))"
  using assms
  by (auto simp: DeleteEmployee_def GetEmployeeByID_def split: option.splits)

theorem DeleteEmployee_then_Get_witness:
  "Atoi ''1'' = (1, None) \<and> Atoi ''7'' = (7, None)
   \<and> DeleteEmployee ''1'' store_ann = (Response 204 NoBody, store_ann\<lparr>employees := Map.empty\<rparr>)
   \<and> GetEmployeeByID ''1'' (snd (DeleteEmployee ''1'' store_ann)) =
       Response 404 (Text not_found_msg)
   \<and> DeleteEmployee ''7'' store_ann = (Response 404 (Text not_found_msg), store_ann)"
proof -
  have p: "employees store_ann 1 = Some (emp_ann\<lparr>ID := 1\<rparr>)"
    and a: "employees store_ann 7 = None"
    and e: "(employees store_ann)(1 := None) = Map.empty"
    by (simp_all add: store_ann_def)
  show ?thesis
    using DeleteEmployee_then_Get [OF Atoi_1, of store_ann]
      DeleteEmployee_then_Get [OF Atoi_7, of store_ann]
    by (auto simp: Atoi_1 Atoi_7 p a e)
qed

section \<open>The identifier counter\<close>

lemma create_all_outcomes:
  "fst (create_all emps s) =
     map (\<lambda>(k, emp). Response 200 (EmployeeJSON (emp\<lparr>ID := lastID s + 1 + word_of_nat k\<rparr>)))
       (enumerate 0 emps)"
proof (induction emps arbitrary: s)
  case Nil
  then show ?case by simp
next
  case (Cons emp emps)
  define s1 where "s1 = snd (CreateEmployee (Inr emp) s)"
  have l1: "lastID s1 = lastID s + 1"
    by (simp add: s1_def CreateEmployee_def Let_def)
  have out: "fst (CreateEmployee (Inr emp) s) =
      Response 200 (EmployeeJSON (emp\<lparr>ID := lastID s + 1\<rparr>))"
    by (simp add: CreateEmployee_def Let_def)
  have shift: "lastID s + 1 + 1 + word_of_nat k = lastID s + 1 + word_of_nat (Suc k)" for k
    by simp
  have "fst (create_all (emp # emps) s) =
      fst (CreateEmployee (Inr emp) s) # fst (create_all emps s1)"
    by (simp add: s1_def split: prod.splits)
  also have "\<dots> = Response 200 (EmployeeJSON (emp\<lparr>ID := lastID s + 1\<rparr>)) #
      map (\<lambda>(k, emp). Response 200 (EmployeeJSON (emp\<lparr>ID := lastID s + 1 + word_of_nat (Suc k)\<rparr>)))
        (enumerate 0 emps)"
    unfolding out Cons.IH l1 shift ..
  also have "\<dots> =
      map (\<lambda>(k, emp). Response 200 (EmployeeJSON (emp\<lparr>ID := lastID s + 1 + word_of_nat k\<rparr>)))
        (enumerate 0 (emp # emps))"
    by (simp add: enumerate_Suc_eq case_prod_beta comp_def del: of_nat_Suc)
  finally show ?case .
qed

text \<open>
  Any number of creates moves the counter by that number, modulo \<open>2 ^ 64\<close>: from the
  initial store, \<open>2 ^ 63 - 1\<close> creates bring the counter to the largest \<^verbatim>\<open>int\<close>.
\<close>

lemma create_all_lastID:
  "lastID (snd (create_all emps s)) = lastID s + word_of_nat (length emps)"
proof (induction emps arbitrary: s)
  case Nil
  then show ?case by simp
next
  case (Cons emp emps)
  define s1 where "s1 = snd (CreateEmployee (Inr emp) s)"
  have l1: "lastID s1 = lastID s + 1"
    by (simp add: s1_def CreateEmployee_def Let_def)
  have "snd (create_all (emp # emps) s) = snd (create_all emps s1)"
    by (simp add: s1_def split: prod.splits)
  then show ?case by (simp add: Cons.IH l1 add.assoc add.commute)
qed

lemma created_ids_map:
  "created_ids (map (\<lambda>(k, emp). Response 200 (EmployeeJSON (emp\<lparr>ID := f k\<rparr>))) kes) =
     map (\<lambda>(k, emp). f k) kes"
  by (induction kes) (auto simp: created_ids_def)

lemma map_zip_fst:
  "length ks = length xs \<Longrightarrow> map (\<lambda>(k, x). g k) (zip ks xs) = map g ks"
  by (induction ks xs rule: list_induct2) simp_all

lemma map_enumerate_fst:
  "map (\<lambda>(k, x). g k) (enumerate 0 xs) = map g [0..<length xs]"
  by (simp add: enumerate_eq_zip map_zip_fst)

lemma created_ids_create_all:
  "created_ids (fst (create_all emps s)) =
     map (\<lambda>k. lastID s + 1 + word_of_nat k) [0..<length emps]"
  unfolding create_all_outcomes created_ids_map by (simp add: map_enumerate_fst)

lemma created_ids_increasing:
  assumes "sint (lastID s) + int (length emps) < 2 ^ 63"
  shows "sorted_wrt (\<lambda>a b. sint a < sint b) (created_ids (fst (create_all emps s)))"
proof -
  have v: "sint (lastID s + 1 + word_of_nat k) = sint (lastID s) + 1 + int k"
    if "k < length emps" for k
  proof -
    have "lastID s + 1 + word_of_nat k = lastID s + word_of_nat (Suc k)" by simp
    moreover have "sint (lastID s) + int (Suc k) < 2 ^ 63" using assms that by simp
    ultimately show ?thesis
      using sint_counter_plus [of "lastID s" "Suc k"] by (simp add: add.assoc)
  qed
  show ?thesis
    unfolding created_ids_create_all
    by (simp add: sorted_wrt_iff_nth_less v)
qed

lemma strictly_increasing_distinct:
  "sorted_wrt (\<lambda>a b. sint a < sint b) (xs :: go_int list) \<Longrightarrow> distinct xs"
  by (induction xs) auto

text \<open>Only a create writes the counter, and it adds one.\<close>

lemma handle_lastID:
  "lastID (snd (handle ks req s)) = lastID s \<or> lastID (snd (handle ks req s)) = lastID s + 1"
  by (cases req)
    (auto simp: CreateEmployee_def UpdateEmployee_def DeleteEmployee_def Let_def
          split: sum.splits prod.splits option.splits)

lemma handle_lastID_mono:
  assumes "sint (lastID s) < 2 ^ 63 - 1"
  shows "sint (lastID s) \<le> sint (lastID (snd (handle ks req s)))"
  using handle_lastID [of ks req s] sint_succ [OF assms] by auto

lemma near_max_reachable:
  "lastID (snd (create_all (replicate 9223372036854775806 emp_ann) init_store)) =
     lastID store_near_max"
  unfolding create_all_lastID length_replicate
  by (simp add: init_store_def store_near_max_def)

text \<open>
  C3, as stated, fails where the counter reaches the largest \<^verbatim>\<open>int\<close>: on a store whose
  counter is \<open>2 ^ 63 - 2\<close> (the value it has after that many creates on the initial
  store), two creates are given the identifiers \<open>2 ^ 63 - 1\<close> and then \<open>- 2 ^ 63\<close>, which
  is smaller, and the counter ends below where it started.
\<close>

theorem create_all_wraps_counterexample:
  "lastID (snd (create_all (replicate 9223372036854775806 emp_ann) init_store)) =
     lastID store_near_max
   \<and> created_ids (fst (create_all [emp_ann, emp_bob] store_near_max)) =
     [0x7FFFFFFFFFFFFFFF, 0x8000000000000000]
   \<and> sint (0x7FFFFFFFFFFFFFFF :: go_int) = 9223372036854775807
   \<and> sint (0x8000000000000000 :: go_int) = - 9223372036854775808
   \<and> \<not> sorted_wrt (\<lambda>a b. sint a < sint b)
         (created_ids (fst (create_all [emp_ann, emp_bob] store_near_max)))
   \<and> sint (lastID (snd (create_all [emp_ann, emp_bob] store_near_max)))
       < sint (lastID store_near_max)"
  unfolding create_two_near_max near_max_reachable
  by (simp add: created_ids_def store_near_max_def)

text \<open>
  C3, amended: on a store with counter \<open>c\<close>, a sequence of \<open>N\<close> creates with decodable
  payloads such that \<open>c + N \<le> 2 ^ 63 - 1\<close> answers 200 every time, the \<open>k\<close>-th create
  (from 0) returning its payload with the identifier \<open>c + 1 + k\<close>; the identifiers are
  strictly increasing and distinct, and the counter ends at \<open>c + N\<close>. And any one request,
  on a store whose counter is below \<open>2 ^ 63 - 1\<close>, leaves the counter equal or greater.
\<close>

theorem create_all_fresh_ids:
  "(sint (lastID s) + int (length emps) < 2 ^ 63 \<longrightarrow>
      fst (create_all emps s) =
        map (\<lambda>(k, emp). Response 200 (EmployeeJSON (emp\<lparr>ID := lastID s + 1 + word_of_nat k\<rparr>)))
          (enumerate 0 emps)
      \<and> created_ids (fst (create_all emps s)) =
          map (\<lambda>k. lastID s + 1 + word_of_nat k) [0..<length emps]
      \<and> sorted_wrt (\<lambda>a b. sint a < sint b) (created_ids (fst (create_all emps s)))
      \<and> distinct (created_ids (fst (create_all emps s)))
      \<and> sint (lastID (snd (create_all emps s))) = sint (lastID s) + int (length emps))
   \<and> (sint (lastID s) < 2 ^ 63 - 1 \<longrightarrow>
        sint (lastID s) \<le> sint (lastID (snd (handle ks req s))))"
proof (intro conjI impI)
  assume b: "sint (lastID s) + int (length emps) < 2 ^ 63"
  show "fst (create_all emps s) =
        map (\<lambda>(k, emp). Response 200 (EmployeeJSON (emp\<lparr>ID := lastID s + 1 + word_of_nat k\<rparr>)))
          (enumerate 0 emps)"
    by (rule create_all_outcomes)
  show "created_ids (fst (create_all emps s)) =
          map (\<lambda>k. lastID s + 1 + word_of_nat k) [0..<length emps]"
    by (rule created_ids_create_all)
  show inc: "sorted_wrt (\<lambda>a b. sint a < sint b) (created_ids (fst (create_all emps s)))"
    using b by (rule created_ids_increasing)
  show "distinct (created_ids (fst (create_all emps s)))"
    using inc by (rule strictly_increasing_distinct)
  show "sint (lastID (snd (create_all emps s))) = sint (lastID s) + int (length emps)"
    using b by (simp add: create_all_lastID sint_counter_plus)
next
  assume "sint (lastID s) < 2 ^ 63 - 1"
  then show "sint (lastID s) \<le> sint (lastID (snd (handle ks req s)))"
    by (rule handle_lastID_mono)
qed

theorem create_all_fresh_ids_witness:
  "sint (lastID init_store) + int (length [emp_ann, emp_bob]) < 2 ^ 63
   \<and> sint (lastID init_store) < 2 ^ 63 - 1
   \<and> fst (create_all [emp_ann, emp_bob] init_store) =
       [Response 200 (EmployeeJSON (emp_ann\<lparr>ID := 1\<rparr>)),
        Response 200 (EmployeeJSON (emp_bob\<lparr>ID := 2\<rparr>))]
   \<and> created_ids (fst (create_all [emp_ann, emp_bob] init_store)) = [1, 2]
   \<and> sorted_wrt (\<lambda>a b. sint a < sint b)
        (created_ids (fst (create_all [emp_ann, emp_bob] init_store)))
   \<and> distinct (created_ids (fst (create_all [emp_ann, emp_bob] init_store)))
   \<and> sint (lastID init_store)
       \<le> sint (lastID (snd (handle [] (POST_employees (Inr emp_ann)) init_store)))"
proof -
  have a: "sint (lastID init_store) + int (length [emp_ann, emp_bob]) < 2 ^ 63"
    and b: "sint (lastID init_store) < 2 ^ 63 - 1"
    by (simp_all add: init_store_def)
  have l: "lastID init_store = 0" by (simp add: init_store_def)
  show ?thesis
    using a b
      create_all_fresh_ids [of init_store "[emp_ann, emp_bob]" "[]" "POST_employees (Inr emp_ann)"]
    by (simp add: l enumerate_eq_zip upt_rec created_ids_def del: create_all.simps)
qed

section \<open>Listing\<close>

text \<open>
  Where neither product nor sum leaves the range of \<^verbatim>\<open>int\<close>, the page is the one the
  arithmetic on unbounded integers describes: empty when the start is at or beyond the
  total, and the records from the start up to the smaller of start plus page size and the
  total otherwise.
\<close>

lemma paginate_in_range:
  assumes p: "1 \<le> sint page" and q: "1 \<le> sint pageSize"
    and nov: "sint page * sint pageSize < 2 ^ 63"
    and len: "length xs < 2 ^ 63"
  shows "paginate xs page pageSize =
           Response 200 (EmployeeListJSON
             (let start = nat ((sint page - 1) * sint pageSize);
                  total = length xs
              in if start \<ge> total then []
                 else take (min (start + nat (sint pageSize)) total - start) (drop start xs)))"
proof -
  define P where "P = sint page"
  define Q where "Q = sint pageSize"
  define S where "S = (P - 1) * Q"
  have P1: "1 \<le> P" and Q1: "1 \<le> Q" and PQ: "P * Q < 2 ^ 63"
    using p q nov by (simp_all add: P_def Q_def)
  have S0: "0 \<le> S" using P1 Q1 by (simp add: S_def)
  have SQ: "S + Q = P * Q" by (simp add: S_def algebra_simps)
  have Sle: "S < 2 ^ 63" using SQ PQ Q1 by linarith
  have pred: "sint (page - 1) = P - 1"
    using p by (simp add: sint_pred_no_wrap P_def)
  have start: "sint ((page - 1) * pageSize) = S"
    using S0 Sle by (simp add: sint_mult_no_wrap pred Q_def [symmetric] S_def [symmetric])
  have endi: "sint ((page - 1) * pageSize + pageSize) = S + Q"
    using S0 Q1 SQ PQ by (simp add: sint_add_no_wrap start Q_def [symmetric])
  have total: "sint (word_of_nat (length xs) :: go_int) = int (length xs)"
    using len by (rule sint_of_nat_no_wrap)
  obtain s where s: "S = int s" using S0 by (metis nat_0_le)
  obtain k where k: "Q = int k" using Q1 by (metis nat_0_le zero_le_one order_trans)
  have res: "paginate xs page pageSize =
      (if s \<ge> length xs then Response 200 (EmployeeListJSON [])
       else Response 200 (EmployeeListJSON (take (min (s + k) (length xs) - s) (drop s xs))))"
    by (simp add: paginate_def slice_def Let_def start endi total s k min_def
        nat_diff_distrib nat_add_distrib)
  have s': "nat ((sint page - 1) * sint pageSize) = s"
    using s by (simp add: S_def P_def Q_def)
  have k': "nat (sint pageSize) = k"
    using k by (simp add: Q_def)
  show ?thesis
    unfolding res by (simp add: Let_def s' k')
qed

text \<open>The three cases of the pagination test, on any snapshot of 25 records.\<close>

lemma paginate_25_page3:
  "length xs = 25 \<Longrightarrow> paginate xs 3 10 = Response 200 (EmployeeListJSON (drop 20 xs))"
  by (simp add: paginate_def slice_def Let_def)

lemma paginate_25_all:
  "length xs = 25 \<Longrightarrow> paginate xs 1 25 = Response 200 (EmployeeListJSON xs)"
  by (simp add: paginate_def slice_def Let_def)

lemma paginate_25_beyond:
  "length xs = 25 \<Longrightarrow> paginate xs 4 10 = Response 200 (EmployeeListJSON [])"
  by (simp add: paginate_def slice_def Let_def)

text \<open>A page far beyond the range of 25 records that is answered with the first four.\<close>

lemma paginate_25_wrap:
  "length xs = 25 \<Longrightarrow>
   paginate xs 4611686018427387905 4 = Response 200 (EmployeeListJSON (take 4 xs))"
  by (simp add: paginate_def slice_def Let_def)

text \<open>
  C1 fails on the code at \<^verbatim>\<open>GET /employees?page=4611686018427387905&pageSize=4\<close> over a
  store of one record. Both parameters are at least 1, and on unbounded integers the start
  is \<open>(page - 1) * pageSize = 2 ^ 64\<close>, far beyond the one record, so the page is beyond
  range and the specified result is the empty sequence. In the code the product wraps
  around to 0 and the answer holds the record.
\<close>

theorem ListEmployees_page_beyond_range:
  "range_order (employees store_ann) [1]
   \<and> effective_page ''4611686018427387905'' = 4611686018427387905
   \<and> effective_pageSize ''4'' = 4
   \<and> (sint (4611686018427387905 :: go_int) - 1) * sint (4 :: go_int) = 2 ^ 64
   \<and> ListEmployees [1] ''4611686018427387905'' ''4'' store_ann =
       Response 200 (EmployeeListJSON [emp_ann\<lparr>ID := 1\<rparr>])"
  by (simp add: List_eval range_order_def store_ann_def)

text \<open>
  The parts of C7 that hold: a value below 1, and so also a missing or syntactically wrong
  parameter (for which the parser returns 0), gives the default; the effective parameters
  are at least 1; and a listing that answers at all answers 200 with a list.
\<close>

lemma effective_page_below_one:
  assumes "sint (fst (Atoi q)) < 1"
  shows "effective_page q = 1" and "effective_pageSize q = 10"
  using assms by (simp_all add: effective_page_def effective_pageSize_def)

lemma effective_page_syntax_error:
  assumes "Atoi q = (i, Some e)" and "Err e = ErrSyntax"
  shows "effective_page q = 1" and "effective_pageSize q = 10"
proof -
  obtain k where "ParseInt q = (i, Some k)" and "e = \<lparr>Func = ''Atoi'', Num = q, Err = k\<rparr>"
    using assms(1) by (auto simp: Atoi_def split: prod.splits option.splits)
  then have "ParseInt q = (i, Some ErrSyntax)" using assms(2) by simp
  then have "i = 0" by (rule ParseInt_syntax_value)
  then show "effective_page q = 1" and "effective_pageSize q = 10"
    using assms(1) by (simp_all add: effective_page_def effective_pageSize_def)
qed

lemma effective_page_ge_one:
  "1 \<le> sint (effective_page q)" "1 \<le> sint (effective_pageSize q)"
  by (simp_all add: effective_page_def effective_pageSize_def Let_def)

lemma ListEmployees_status:
  assumes "ListEmployees ks pageStr pageSizeStr s = Response st b"
  shows "st = 200 \<and> (\<exists>xs. b = EmployeeListJSON xs)"
  using assms
  by (auto simp: ListEmployees_def paginate_def Let_def split: if_splits option.splits)

text \<open>
  C7 fails on the code at \<^verbatim>\<open>GET /employees?page=922337203685477582\<close> on the empty store:
  the page parses, the start \<open>(page - 1) * 10\<close> wraps around to a negative number, and the
  slice expression panics, so no 200 is written. It fails also at
  \<^verbatim>\<open>page=99999999999999999999\<close>: the parser reports a range error and returns the largest
  \<^verbatim>\<open>int\<close>, the handler drops the error and keeps that value instead of the default 1, and
  the same panic follows. For \<^verbatim>\<open>pageSize\<close> the same value is kept instead of the default 10.
\<close>

theorem ListEmployees_panics:
  "Atoi ''922337203685477582'' = (922337203685477582, None)
   \<and> ListEmployees [] ''922337203685477582'' '''' init_store = Panic
   \<and> Atoi ''99999999999999999999'' =
       (0x7FFFFFFFFFFFFFFF,
        Some \<lparr>Func = ''Atoi'', Num = ''99999999999999999999'', Err = ErrRange\<rparr>)
   \<and> effective_page ''99999999999999999999'' = 0x7FFFFFFFFFFFFFFF
   \<and> ListEmployees [] ''99999999999999999999'' '''' init_store = Panic
   \<and> effective_pageSize ''99999999999999999999'' = 0x7FFFFFFFFFFFFFFF"
  by (simp add: List_eval init_store_def)

text \<open>Whatever the order of the visit, the list holds every record of the map.\<close>

lemma employeeList_of_complete:
  assumes "range_order m ks"
  shows "set (employeeList_of m ks) = ran m" and "length (employeeList_of m ks) = length ks"
proof -
  have d: "set ks = dom m" using assms by (simp add: range_order_def)
  have "filter (\<lambda>k. m k \<noteq> None) ks = ks"
    using d by (auto simp: filter_id_conv)
  then have e: "employeeList_of m ks = map (the \<circ> m) ks"
    by (simp add: employeeList_of_def List.map_filter_def)
  show "length (employeeList_of m ks) = length ks"
    by (simp add: e)
  have "set (employeeList_of m ks) = (the \<circ> m) ` dom m"
    by (simp add: e d)
  also have "\<dots> = ran m"
    by (force simp: ran_def dom_def image_iff)
  finally show "set (employeeList_of m ks) = ran m" .
qed

text \<open>
  C8 fails on the code: the list is filled in the order in which \<^verbatim>\<open>range\<close> visits the map
  and is not sorted afterwards. On the store with the records 1 and 2, both orders of
  visit can occur; two listings of the same store (no query parameters) then show the
  records in different orders, and the first page of size 1 holds a different record.
\<close>

theorem ListEmployees_depends_on_range_order:
  "range_order (employees store_two) [1, 2]
   \<and> range_order (employees store_two) [2, 1]
   \<and> ListEmployees [1, 2] '''' '''' store_two =
       Response 200 (EmployeeListJSON [emp_ann\<lparr>ID := 1\<rparr>, emp_bob\<lparr>ID := 2\<rparr>])
   \<and> ListEmployees [2, 1] '''' '''' store_two =
       Response 200 (EmployeeListJSON [emp_bob\<lparr>ID := 2\<rparr>, emp_ann\<lparr>ID := 1\<rparr>])
   \<and> ListEmployees [1, 2] ''1'' ''1'' store_two =
       Response 200 (EmployeeListJSON [emp_ann\<lparr>ID := 1\<rparr>])
   \<and> ListEmployees [2, 1] ''1'' ''1'' store_two =
       Response 200 (EmployeeListJSON [emp_bob\<lparr>ID := 2\<rparr>])
   \<and> ListEmployees [1, 2] ''1'' ''1'' store_two \<noteq> ListEmployees [2, 1] ''1'' ''1'' store_two"
  by (auto simp: List_eval range_order_def store_two_def emp_ann_def emp_bob_def)

section \<open>Failures\<close>

text \<open>
  C9, as stated, fails for a malformed id: the parser's error text for the path id
  \<^verbatim>\<open>abc\<close> names the function and the input, and the handler answers 400 with a fixed
  message instead.
\<close>

theorem invalid_id_message_counterexample:
  "Atoi ''abc'' = (0, Some \<lparr>Func = ''Atoi'', Num = ''abc'', Err = ErrSyntax\<rparr>)
   \<and> NumError_Error \<lparr>Func = ''Atoi'', Num = ''abc'', Err = ErrSyntax\<rparr> =
       ''strconv.Atoi: parsing '' @ [CHR 0x22] @ ''abc'' @ [CHR 0x22] @ '': invalid syntax''
   \<and> GetEmployeeByID ''abc'' init_store = Response 400 (Text ''Invalid employee ID'')
   \<and> GetEmployeeByID ''abc'' init_store \<noteq>
       Response 400 (Text (NumError_Error \<lparr>Func = ''Atoi'', Num = ''abc'', Err = ErrSyntax\<rparr>))"
  by (simp add: Atoi_eval NumError_Error_def Quote_def escape_byte_def GetEmployeeByID_def
      invalid_id_msg_def)

text \<open>
  Every answer of a request other than a listing that is neither 200 nor an empty 204 has
  one of the four causes, and leaves the store as it was.
\<close>

lemma failure_has_cause:
  assumes "\<not> is_listing req" and "handle ks req s = (out, s')"
  shows "\<exists>st b. out = Response st b \<and>
           (st = 200
            \<or> (st = 204 \<and> b = NoBody)
            \<or> (s' = s \<and> st = 400 \<and> b = Text invalid_id_msg
                \<and> (\<exists>idStr e. path_id req = Some idStr \<and> snd (Atoi idStr) = Some e))
            \<or> (s' = s \<and> st = 400 \<and> (\<exists>t. b = Text t \<and> payload_of req = Some (Inl t)))
            \<or> (s' = s \<and> st = 415 \<and> b = Text invalid_content_type_msg
                \<and> (\<exists>ct. content_type_of req = Some ct \<and> ct \<noteq> ''application/json''))
            \<or> (s' = s \<and> st = 404 \<and> b = Text not_found_msg
                \<and> (\<exists>idStr eid. path_id req = Some idStr \<and> Atoi idStr = (eid, None)
                      \<and> employees s eid = None)))"
proof (cases req)
  case (POST_employees p)
  then show ?thesis using assms(2)
    by (auto simp: CreateEmployee_def Let_def split: sum.splits)
next
  case (GET_employee idStr)
  then show ?thesis using assms(2)
    by (auto simp: GetEmployeeByID_def split: prod.splits option.splits)
next
  case (PUT_employee idStr contentType p)
  then show ?thesis using assms(2)
    by (auto simp: UpdateEmployee_def Let_def
        split: prod.splits option.splits sum.splits if_splits)
next
  case (DELETE_employee idStr)
  then show ?thesis using assms(2)
    by (auto simp: DeleteEmployee_def split: prod.splits option.splits)
next
  case (GET_employees a b)
  then show ?thesis using assms(1) by simp
next
  case GET_root
  then show ?thesis using assms(2) by auto
qed

text \<open>Each cause gives its answer, in the order in which the handlers test them.\<close>

lemma undecodable_create:
  "handle ks (POST_employees (Inl t)) s = (Response 400 (Text t), s)"
  by (simp add: CreateEmployee_def)

lemma malformed_id:
  assumes "snd (Atoi idStr) \<noteq> None"
  shows "handle ks (GET_employee idStr) s = (Response 400 (Text invalid_id_msg), s)"
    and "handle ks (PUT_employee idStr contentType p) s = (Response 400 (Text invalid_id_msg), s)"
    and "handle ks (DELETE_employee idStr) s = (Response 400 (Text invalid_id_msg), s)"
  using assms
  by (auto simp: GetEmployeeByID_def UpdateEmployee_def DeleteEmployee_def
      split: prod.splits option.splits)

lemma wrong_content_type:
  assumes "snd (Atoi idStr) = None" and "contentType \<noteq> ''application/json''"
  shows "handle ks (PUT_employee idStr contentType p) s =
           (Response 415 (Text invalid_content_type_msg), s)"
  using assms by (auto simp: UpdateEmployee_def split: prod.splits option.splits)

lemma undecodable_update:
  assumes "snd (Atoi idStr) = None"
  shows "handle ks (PUT_employee idStr ''application/json'' (Inl t)) s =
           (Response 400 (Text t), s)"
  using assms by (auto simp: UpdateEmployee_def split: prod.splits option.splits)

lemma absent_id:
  assumes "snd (Atoi idStr) = None" and "employees s (fst (Atoi idStr)) = None"
  shows "handle ks (GET_employee idStr) s = (Response 404 (Text not_found_msg), s)"
    and "handle ks (PUT_employee idStr ''application/json'' (Inr new_fields)) s =
           (Response 404 (Text not_found_msg), s)"
    and "handle ks (DELETE_employee idStr) s = (Response 404 (Text not_found_msg), s)"
  using assms
  by (auto simp: GetEmployeeByID_def UpdateEmployee_def DeleteEmployee_def Let_def
      split: prod.splits option.splits)

text \<open>
  C9, amended. For every store and every create, get, update or delete request:
  a create whose payload does not decode answers 400 with the decoder's own error text;
  a path id that does not parse answers 400 with the fixed message, whatever else the
  request holds; for a path id that parses, an update whose content type is not
  \<^verbatim>\<open>application/json\<close> answers 415 with a fixed message, an update with that content type
  whose payload does not decode answers 400 with the decoder's own error text, and a get,
  a delete, or an update with that content type and a decodable payload, of an id that is
  not in the store answers 404 with a fixed message; each of these leaves the store as it
  was. And these requests fail in no other way: an answer that is neither 200 nor an empty
  204 is one of these four, with its cause present and the store as it was.
\<close>

theorem failure_taxonomy:
  "handle ks (POST_employees (Inl t)) s = (Response 400 (Text t), s)
   \<and> (snd (Atoi idStr) \<noteq> None \<longrightarrow>
        handle ks (GET_employee idStr) s = (Response 400 (Text invalid_id_msg), s)
        \<and> handle ks (PUT_employee idStr contentType p) s =
            (Response 400 (Text invalid_id_msg), s)
        \<and> handle ks (DELETE_employee idStr) s = (Response 400 (Text invalid_id_msg), s))
   \<and> (snd (Atoi idStr) = None \<longrightarrow>
        (contentType \<noteq> ''application/json'' \<longrightarrow>
           handle ks (PUT_employee idStr contentType p) s =
             (Response 415 (Text invalid_content_type_msg), s))
        \<and> handle ks (PUT_employee idStr ''application/json'' (Inl t)) s =
            (Response 400 (Text t), s)
        \<and> (employees s (fst (Atoi idStr)) = None \<longrightarrow>
             handle ks (GET_employee idStr) s = (Response 404 (Text not_found_msg), s)
             \<and> handle ks (PUT_employee idStr ''application/json'' (Inr new_fields)) s =
                 (Response 404 (Text not_found_msg), s)
             \<and> handle ks (DELETE_employee idStr) s = (Response 404 (Text not_found_msg), s)))
   \<and> (\<not> is_listing req \<and> handle ks req s = (out, s') \<longrightarrow>
        (\<exists>st b. out = Response st b \<and>
           (st = 200
            \<or> (st = 204 \<and> b = NoBody)
            \<or> (s' = s \<and> st = 400 \<and> b = Text invalid_id_msg
                \<and> (\<exists>idStr e. path_id req = Some idStr \<and> snd (Atoi idStr) = Some e))
            \<or> (s' = s \<and> st = 400 \<and> (\<exists>t. b = Text t \<and> payload_of req = Some (Inl t)))
            \<or> (s' = s \<and> st = 415 \<and> b = Text invalid_content_type_msg
                \<and> (\<exists>ct. content_type_of req = Some ct \<and> ct \<noteq> ''application/json''))
            \<or> (s' = s \<and> st = 404 \<and> b = Text not_found_msg
                \<and> (\<exists>idStr eid. path_id req = Some idStr \<and> Atoi idStr = (eid, None)
                      \<and> employees s eid = None)))))"
proof (intro conjI impI)
  show "handle ks (POST_employees (Inl t)) s = (Response 400 (Text t), s)"
    by (rule undecodable_create)
next
  assume m: "snd (Atoi idStr) \<noteq> None"
  show "handle ks (GET_employee idStr) s = (Response 400 (Text invalid_id_msg), s)"
    and "handle ks (PUT_employee idStr contentType p) s =
      (Response 400 (Text invalid_id_msg), s)"
    and "handle ks (DELETE_employee idStr) s = (Response 400 (Text invalid_id_msg), s)"
    using m by (rule malformed_id)+
next
  assume ok: "snd (Atoi idStr) = None"
  show "handle ks (PUT_employee idStr ''application/json'' (Inl t)) s =
      (Response 400 (Text t), s)"
    using ok by (rule undecodable_update)
  {
    assume "contentType \<noteq> ''application/json''"
    with ok show "handle ks (PUT_employee idStr contentType p) s =
        (Response 415 (Text invalid_content_type_msg), s)"
      by (rule wrong_content_type)
  }
  {
    assume a: "employees s (fst (Atoi idStr)) = None"
    show "handle ks (GET_employee idStr) s = (Response 404 (Text not_found_msg), s)"
      and "handle ks (PUT_employee idStr ''application/json'' (Inr new_fields)) s =
        (Response 404 (Text not_found_msg), s)"
      and "handle ks (DELETE_employee idStr) s = (Response 404 (Text not_found_msg), s)"
      using ok a by (rule absent_id)+
  }
next
  assume "\<not> is_listing req \<and> handle ks req s = (out, s')"
  then have "\<not> is_listing req" and "handle ks req s = (out, s')" by simp_all
  then show "\<exists>st b. out = Response st b \<and>
           (st = 200
            \<or> (st = 204 \<and> b = NoBody)
            \<or> (s' = s \<and> st = 400 \<and> b = Text invalid_id_msg
                \<and> (\<exists>idStr e. path_id req = Some idStr \<and> snd (Atoi idStr) = Some e))
            \<or> (s' = s \<and> st = 400 \<and> (\<exists>t. b = Text t \<and> payload_of req = Some (Inl t)))
            \<or> (s' = s \<and> st = 415 \<and> b = Text invalid_content_type_msg
                \<and> (\<exists>ct. content_type_of req = Some ct \<and> ct \<noteq> ''application/json''))
            \<or> (s' = s \<and> st = 404 \<and> b = Text not_found_msg
                \<and> (\<exists>idStr eid. path_id req = Some idStr \<and> Atoi idStr = (eid, None)
                      \<and> employees s eid = None)))"
    by (rule failure_has_cause)
qed

theorem failure_taxonomy_witness:
  "snd (Atoi ''abc'') \<noteq> None
   \<and> snd (Atoi ''7'') = None \<and> ''text/plain'' \<noteq> ''application/json''
   \<and> employees store_ann (fst (Atoi ''7'')) = None
   \<and> \<not> is_listing (DELETE_employee ''7'')
   \<and> handle [] (POST_employees (Inl ''unexpected EOF'')) store_ann =
       (Response 400 (Text ''unexpected EOF''), store_ann)
   \<and> handle [] (GET_employee ''abc'') store_ann = (Response 400 (Text invalid_id_msg), store_ann)
   \<and> handle [] (PUT_employee ''abc'' ''text/plain'' (Inr emp_bob)) store_ann =
       (Response 400 (Text invalid_id_msg), store_ann)
   \<and> handle [] (DELETE_employee ''abc'') store_ann =
       (Response 400 (Text invalid_id_msg), store_ann)
   \<and> handle [] (PUT_employee ''7'' ''text/plain'' (Inr emp_bob)) store_ann =
       (Response 415 (Text invalid_content_type_msg), store_ann)
   \<and> handle [] (PUT_employee ''7'' ''application/json'' (Inl ''unexpected EOF'')) store_ann =
       (Response 400 (Text ''unexpected EOF''), store_ann)
   \<and> handle [] (GET_employee ''7'') store_ann = (Response 404 (Text not_found_msg), store_ann)
   \<and> handle [] (PUT_employee ''7'' ''application/json'' (Inr emp_bob)) store_ann =
       (Response 404 (Text not_found_msg), store_ann)
   \<and> handle [] (DELETE_employee ''7'') store_ann =
       (Response 404 (Text not_found_msg), store_ann)"
proof -
  have m: "snd (Atoi ''abc'') \<noteq> None" by (simp add: Atoi_eval)
  have ok: "snd (Atoi ''7'') = None" by (simp add: Atoi_7)
  have c: "''text/plain'' \<noteq> ''application/json''" by simp
  have a: "employees store_ann (fst (Atoi ''7'')) = None"
    by (simp add: Atoi_7 store_ann_def)
  have n: "\<not> is_listing (DELETE_employee ''7'')" by simp
  note bad = failure_taxonomy [of "[]" "''unexpected EOF''" store_ann "''abc''" "''text/plain''"
      "Inr emp_bob" emp_bob "DELETE_employee ''7''" "Response 404 (Text not_found_msg)" store_ann]
  note good = failure_taxonomy [of "[]" "''unexpected EOF''" store_ann "''7''" "''text/plain''"
      "Inr emp_bob" emp_bob "DELETE_employee ''7''" "Response 404 (Text not_found_msg)" store_ann]
  show ?thesis
    using bad good m ok c a n by simp
qed

end
